theory Spec2Isabelle
  imports Main "HOL-Library.Word"
begin

section \<open>JavaScript values shared by both programs\<close>

text \<open>
  A \<^verbatim>\<open>Uint8Array\<close> / \<^verbatim>\<open>ArrayBuffer\<close> is a list of bytes. A JavaScript string is
  represented by its UTF-8 byte sequence (\<^typ>\<open>string\<close>, whose characters are bytes).
\<close>

type_synonym bytes = "8 word list"

text \<open>An \<^verbatim>\<open>Error\<close> object: its \<^verbatim>\<open>name\<close> and its \<^verbatim>\<open>message\<close>.\<close>

datatype js_error = JsError (error_name: string) (error_message: string)

text \<open>\<^verbatim>\<open>new Error(message)\<close>\<close>

definition new_Error :: "string \<Rightarrow> js_error" where
  "new_Error m = JsError ''Error'' m"

text \<open>
  A value of type \<^verbatim>\<open>unknown\<close>, as a \<^verbatim>\<open>catch\<close> clause receives it: either an
  \<^verbatim>\<open>Error\<close> object (\<^verbatim>\<open>err instanceof Error\<close>) or anything else, kept as the text
  \<^verbatim>\<open>String(err)\<close> gives for it.
\<close>

datatype js_value = ErrorValue js_error | OtherValue string

text \<open>\<^verbatim>\<open>Error.prototype.toString\<close>\<close>

definition error_toString :: "js_error \<Rightarrow> string" where
  "error_toString e =
     (if error_name e = [] then error_message e
      else if error_message e = [] then error_name e
      else error_name e @ '': '' @ error_message e)"

text \<open>\<^verbatim>\<open>String(err)\<close>, also what a template literal inserts for \<^verbatim>\<open>${err}\<close>.\<close>

fun js_String :: "js_value \<Rightarrow> string" where
  "js_String (ErrorValue e) = error_toString e"
| "js_String (OtherValue s) = s"

text \<open>\<^verbatim>\<open>v || d\<close> on a value that is a string or \<^verbatim>\<open>null\<close>/\<^verbatim>\<open>undefined\<close>: the empty
  string is falsy.\<close>

fun or_default :: "string option \<Rightarrow> string \<Rightarrow> string" where
  "or_default None d = d"
| "or_default (Some s) d = (if s = [] then d else s)"

text \<open>\<^verbatim>\<open>!v\<close> on a string and on a string or \<^verbatim>\<open>null\<close>.\<close>

definition falsy :: "string \<Rightarrow> bool" where
  "falsy s \<longleftrightarrow> s = []"

fun falsy_opt :: "string option \<Rightarrow> bool" where
  "falsy_opt None = True"
| "falsy_opt (Some s) = falsy s"

section \<open>The delegation handoff page (\<^verbatim>\<open>src/unnamed/part_001\<close>)\<close>

subsection \<open>The page\<close>

text \<open>
  What the script reads and writes of the document: the \<^verbatim>\<open>#error\<close> paragraph (absent
  when \<^verbatim>\<open>querySelector\<close> gives \<^verbatim>\<open>null\<close>) with its \<^verbatim>\<open>textContent\<close> and
  \<^verbatim>\<open>style.display\<close>, whether \<^verbatim>\<open>#ii-login-button\<close> exists, \<^verbatim>\<open>window.location.href\<close>
  (assigning it navigates), and the lines written with \<^verbatim>\<open>console.error\<close>.
\<close>

record error_element =
  textContent :: string
  display :: string

record page =
  errorElement :: "error_element option"
  loginButton :: bool
  href :: string
  console :: "string list"

definition formatError :: "string \<Rightarrow> js_value \<Rightarrow> string" where
  "formatError prefix error =
     ''Internet Identity '' @ prefix @ '': '' @
       (case error of ErrorValue e \<Rightarrow> error_message e | OtherValue s \<Rightarrow> js_String (OtherValue s))"

definition renderError :: "string \<Rightarrow> page \<Rightarrow> page" where
  "renderError message p =
     (case errorElement p of
        None \<Rightarrow> p\<lparr>console := console p @ [''Error element not found'']\<rparr>
      | Some el \<Rightarrow>
          p\<lparr>errorElement :=
              Some (el\<lparr>textContent := message,
                       display := (if \<not> falsy message then ''block'' else ''none'')\<rparr>)\<rparr>)"

subsection \<open>The public-key-only identity\<close>

type_synonym public_key = bytes
type_synonym signature = bytes

datatype sign_identity = PublicKeyOnlyIdentity public_key

fun getPublicKey :: "sign_identity \<Rightarrow> public_key" where
  "getPublicKey (PublicKeyOnlyIdentity k) = k"

text \<open>\<^verbatim>\<open>async sign(blob)\<close>: the promise is rejected (\<open>Inl\<close>) or fulfilled with a signature.\<close>

fun sign :: "sign_identity \<Rightarrow> bytes \<Rightarrow> js_value + signature" where
  "sign (PublicKeyOnlyIdentity k) blob =
     Inl (ErrorValue (new_Error ''Cannot sign with incomplete identity''))"

subsection \<open>What the page's surroundings decide\<close>

text \<open>How one call of \<^verbatim>\<open>authClient.login\<close> ends: it throws or rejects, it calls
  \<^verbatim>\<open>onSuccess\<close>, it calls \<^verbatim>\<open>onError\<close> with an optional text, or it calls neither (the
  provider window is still open).\<close>

datatype login_outcome =
    LoginThrows js_value
  | LoginSuccess
  | LoginError "string option"
  | LoginPending

text \<open>
  The library and browser behaviour the script relies on, taken as parameters:
  \<^item> \<open>searchParams\<close>: the query parameters of \<^verbatim>\<open>window.location.href\<close>, names and values
    decoded, in order (\<^verbatim>\<open>new URL(...).searchParams\<close>);
  \<^item> \<open>fromDerHex\<close>: \<^verbatim>\<open>Ed25519PublicKey.fromDer(fromHex(pubKey))\<close>, which may throw;
  \<^item> \<open>authClientCreate\<close>: \<^verbatim>\<open>AuthClient.create({ identity })\<close>, which may reject;
  \<^item> \<open>nullAccessError\<close>: the \<^verbatim>\<open>TypeError\<close> of the engine for a member access on \<^verbatim>\<open>null\<close>;
  \<^item> \<open>login\<close>: how \<^verbatim>\<open>authClient.login\<close> ends for a provider URL;
  \<^item> \<open>getIdentity\<close>: what \<^verbatim>\<open>authClient.getIdentity()\<close> returns after the login;
  \<^item> \<open>delegationJSON\<close>: \<^verbatim>\<open>JSON.stringify(x.getDelegation().toJSON())\<close>, which throws when
    \<^verbatim>\<open>x\<close> carries no delegation chain or the chain does not serialise.
\<close>

record 'd handoff_env =
  searchParams :: "(string \<times> string) list"
  fromDerHex :: "string \<Rightarrow> js_value + public_key"
  authClientCreate :: "sign_identity \<Rightarrow> js_value + unit"
  nullAccessError :: js_value
  login :: "string \<Rightarrow> login_outcome"
  getIdentity :: 'd
  delegationJSON :: "'d \<Rightarrow> js_value + string"

text \<open>\<^verbatim>\<open>URLSearchParams.get\<close>: the first value stored under the name, or \<^verbatim>\<open>null\<close>.\<close>

fun searchParams_get :: "(string \<times> string) list \<Rightarrow> string \<Rightarrow> string option" where
  "searchParams_get [] name = None"
| "searchParams_get ((k, v) # rest) name =
     (if k = name then Some v else searchParams_get rest name)"

subsection \<open>\<^verbatim>\<open>parseParams\<close>\<close>

record parsed_params =
  redirectUri :: string
  identity :: sign_identity
  iiUri :: string

definition missing_message :: string where
  "missing_message = ''Missing redirect_uri, pubkey, or ii_uri in query string''"

text \<open>The result is what the function returns or throws, with the page as
  \<^verbatim>\<open>renderError\<close> left it. Past the guard, \<^verbatim>\<open>pubKey\<close> and \<^verbatim>\<open>iiUri\<close> are strings: a
  \<^verbatim>\<open>null\<close> is falsy, so the last case of the inner \<open>case\<close> is never reached.\<close>

definition parseParams :: "'d handoff_env \<Rightarrow> page \<Rightarrow> (js_value + parsed_params) \<times> page" where
  "parseParams env p =
     (let redirect = or_default (searchParams_get (searchParams env) ''redirect_uri'') '''';
          pubKey = searchParams_get (searchParams env) ''pubkey'';
          provider = searchParams_get (searchParams env) ''ii_uri''
      in if falsy redirect \<or> falsy_opt pubKey \<or> falsy_opt provider then
           (let error = new_Error missing_message
            in (Inl (ErrorValue error), renderError (error_message error) p))
         else
           (case (pubKey, provider) of
              (Some pk, Some ii) \<Rightarrow>
                (case fromDerHex env pk of
                   Inl e \<Rightarrow> (Inl e, p)
                 | Inr k \<Rightarrow>
                     (Inr \<lparr>redirectUri = redirect,
                           identity = PublicKeyOnlyIdentity k,
                           iiUri = ii\<rparr>, p))
            | _ \<Rightarrow> (Inl (nullAccessError env), p)))"

subsection \<open>\<^verbatim>\<open>encodeURIComponent\<close> and \<^verbatim>\<open>buildRedirectURLWithDelegation\<close>\<close>

text \<open>
  \<^verbatim>\<open>encodeURIComponent\<close> keeps the characters \<^verbatim>\<open>A-Z a-z 0-9 - _ . ! ~ * ' ( )\<close> and
  writes every other byte of the UTF-8 form as \<^verbatim>\<open>%XX\<close> with upper-case hexadecimal
  digits. \<^verbatim>\<open>decodeURIComponent\<close> reads \<^verbatim>\<open>%XX\<close> (either case) back into the byte and
  throws (\<open>None\<close>) on a \<^verbatim>\<open>%\<close> that two hexadecimal digits do not follow. The text
  \<^verbatim>\<open>JSON.stringify\<close> returns is well-formed, so the \<^verbatim>\<open>URIError\<close> of \<^verbatim>\<open>encodeURIComponent\<close>
  on a lone surrogate does not arise; the \<^verbatim>\<open>URIError\<close> of \<^verbatim>\<open>decodeURIComponent\<close> on bytes
  that are not UTF-8 is left out, as the encoding of a string never yields such bytes.
\<close>

definition char_between :: "char \<Rightarrow> char \<Rightarrow> char \<Rightarrow> bool" where
  "char_between lo c hi \<longleftrightarrow>
     (of_char lo :: nat) \<le> of_char c \<and> (of_char c :: nat) \<le> of_char hi"

definition uriUnescaped :: "char \<Rightarrow> bool" where
  "uriUnescaped c \<longleftrightarrow>
     char_between CHR ''A'' c CHR ''Z'' \<or> char_between CHR ''a'' c CHR ''z'' \<or>
     char_between CHR ''0'' c CHR ''9'' \<or> c \<in> set ''-_.!~*'()''"

definition hexDigit :: "nat \<Rightarrow> char" where
  "hexDigit n = (if n < 10 then char_of (48 + n) else char_of (55 + n))"

definition hexValue :: "char \<Rightarrow> nat option" where
  "hexValue c =
     (if char_between CHR ''0'' c CHR ''9'' then Some (of_char c - 48)
      else if char_between CHR ''A'' c CHR ''F'' then Some (of_char c - 55)
      else if char_between CHR ''a'' c CHR ''f'' then Some (of_char c - 87)
      else None)"

definition percentEncode :: "char \<Rightarrow> string" where
  "percentEncode c = [CHR ''%'', hexDigit (of_char c div 16), hexDigit (of_char c mod 16)]"

fun encodeURIComponent :: "string \<Rightarrow> string" where
  "encodeURIComponent [] = []"
| "encodeURIComponent (c # cs) =
     (if uriUnescaped c then [c] else percentEncode c) @ encodeURIComponent cs"

fun decodeURIComponent :: "string \<Rightarrow> string option" where
  "decodeURIComponent [] = Some []"
| "decodeURIComponent (c # cs) =
     (if c = CHR ''%'' then
        (case cs of
           h1 # h2 # rest \<Rightarrow>
             (case (hexValue h1, hexValue h2) of
                (Some a, Some b) \<Rightarrow>
                  map_option ((#) (char_of (16 * a + b))) (decodeURIComponent rest)
              | _ \<Rightarrow> None)
         | _ \<Rightarrow> None)
      else map_option ((#) c) (decodeURIComponent cs))"

text \<open>The first argument is the library's serialisation of the delegation chain
  (\<open>delegationJSON\<close> of the environment); when it throws, so does the function.\<close>

definition buildRedirectURLWithDelegation ::
    "('d \<Rightarrow> js_value + string) \<Rightarrow> string \<Rightarrow> 'd \<Rightarrow> js_value + string" where
  "buildRedirectURLWithDelegation toJSON redirect delegationIdentity =
     (case toJSON delegationIdentity of
        Inl e \<Rightarrow> Inl e
      | Inr delegationString \<Rightarrow>
          (let encodedDelegation = encodeURIComponent delegationString
           in Inr (redirect @ ''?delegation='' @ encodedDelegation)))"

subsection \<open>\<^verbatim>\<open>main\<close> and the click listener\<close>

definition onSuccess :: "'d handoff_env \<Rightarrow> parsed_params \<Rightarrow> page \<Rightarrow> page" where
  "onSuccess env ps p =
     (let p1 = renderError '''' p
      in case buildRedirectURLWithDelegation (delegationJSON env) (redirectUri ps)
                (getIdentity env) of
           Inl error \<Rightarrow> renderError (formatError ''delegation retrieval failed'' error) p1
         | Inr url \<Rightarrow> p1\<lparr>href := url\<rparr>)"

definition onError :: "string option \<Rightarrow> page \<Rightarrow> page" where
  "onError error p =
     renderError
       (formatError ''authentication rejected'' (OtherValue (or_default error ''Unknown error''))) p"

text \<open>One click on the login button, for the listener \<^verbatim>\<open>main\<close> registered.\<close>

definition click :: "'d handoff_env \<Rightarrow> parsed_params \<Rightarrow> page \<Rightarrow> page" where
  "click env ps p =
     (let p1 = renderError '''' p
      in case login env (iiUri ps) of
           LoginThrows error \<Rightarrow> renderError (formatError ''login process failed'' error) p1
         | LoginSuccess \<Rightarrow> onSuccess env ps p1
         | LoginError error \<Rightarrow> onError error p1
         | LoginPending \<Rightarrow> p1)"

text \<open>\<^verbatim>\<open>main\<close> returns the page and, when it registered the click listener, the values
  the listener closes over.\<close>

definition main :: "'d handoff_env \<Rightarrow> page \<Rightarrow> page \<times> parsed_params option" where
  "main env p =
     (case parseParams env p of
        (Inl error, p1) \<Rightarrow> (renderError (formatError ''initialization failed'' error) p1, None)
      | (Inr ps, p1) \<Rightarrow>
          (case authClientCreate env (identity ps) of
             Inl error \<Rightarrow>
               (renderError (formatError ''initialization failed'' error) p1, None)
           | Inr _ \<Rightarrow>
               if loginButton p1 then (p1, Some ps)
               else (renderError (formatError ''initialization failed'' (nullAccessError env)) p1,
                     None)))"

text \<open>The handoff: the page is loaded and the login button, if it got its listener, is
  pressed once.\<close>

definition handoff :: "'d handoff_env \<Rightarrow> page \<Rightarrow> page" where
  "handoff env p =
     (case main env p of
        (p1, None) \<Rightarrow> p1
      | (p1, Some ps) \<Rightarrow> click env ps p1)"

section \<open>The encryption-key bootstrap (\<^verbatim>\<open>app/_layout.tsx\<close>, \<^verbatim>\<open>RootLayoutNav\<close>)\<close>

subsection \<open>Keys, the remote keystore and the component's state\<close>

type_synonym principal = bytes

text \<open>The identity \<^verbatim>\<open>useAuth\<close> holds after a login; \<^verbatim>\<open>initAesKey\<close> reads its principal
  and hands it to \<^verbatim>\<open>createBackend\<close>.\<close>

datatype delegation_identity = DelegationIdentity (getPrincipal: principal)

record key_pair =
  publicKeyBytes :: bytes
  privateKeyHandle :: bytes

text \<open>The keys \<^verbatim>\<open>useAuth\<close> owns: the symmetric key, if one is set, and the transport key
  pair, if one was generated.\<close>

record auth_state =
  aesRawKey :: "bytes option"
  transportKeyPair :: "key_pair option"

text \<open>The reply of \<^verbatim>\<open>asymmetric_keys\<close>. An optional Candid field arrives as an empty or a
  one-element array; \<^verbatim>\<open>reply.field?.[0]\<close> reads it as the element or \<^verbatim>\<open>undefined\<close>. A
  \<^verbatim>\<open>Uint8Array\<close> is truthy whatever its length.\<close>

record keys_reply =
  public_key :: bytes
  encrypted_aes_key :: "bytes option"
  encrypted_key :: "bytes option"

text \<open>
  The calls made to the remote keystore are logged in the order they are issued. Each
  entry also notes the symmetric key the key store held at the moment of the call; the
  program does not read the log.
\<close>

datatype remote_call = FetchKeys bytes | SaveEncryptedKey bytes

record call_entry =
  remoteCall :: remote_call
  keyAtCall :: "bytes option"

text \<open>The React state and refs of \<^verbatim>\<open>RootLayoutNav\<close>, the keys of \<^verbatim>\<open>useAuth\<close>, and the log
  of remote calls.\<close>

record app_state =
  initializationStatus :: string
  isLoading :: bool
  error :: "js_error option"
  initializationCompleted :: bool
  initializationAttempted :: bool
  auth :: auth_state
  remoteCalls :: "call_entry list"

text \<open>
  What surrounds \<^verbatim>\<open>initAesKey\<close>, taken as parameters:
  \<^item> \<open>currentIdentity\<close>: the \<^verbatim>\<open>identity\<close> the callback closes over, if any;
  \<^item> \<open>capturedIsLoading\<close>: the \<^verbatim>\<open>isLoading\<close> the callback closes over, the value of the
    render that created the callback; \<^verbatim>\<open>setIsLoading\<close> writes the field \<open>isLoading\<close> of the
    state, which the next render reads, and leaves the captured value as it is;
  \<^item> \<open>asymmetric_keys\<close>, \<open>asymmetric_save_encrypted_aes_key\<close>: the two canister methods of
    the actor \<^verbatim>\<open>createBackend(identity)\<close> returns; a call resolves or rejects;
  \<^item> \<open>newAesKey\<close>, \<open>newTransportKeyPair\<close>: the random symmetric key and transport key pair
    the next generation yields;
  \<^item> \<open>unwrapKey\<close>: the cipher primitive that decrypts wrapped key material with the
    transport key pair (none when no pair was generated); it fails on tampered input or a
    key mismatch;
  \<^item> \<open>wrapKey\<close>: the cipher primitive that encrypts a symmetric key under the keystore's
    public key for a principal.
\<close>

record bootstrap_env =
  currentIdentity :: "delegation_identity option"
  capturedIsLoading :: bool
  asymmetric_keys :: "delegation_identity \<Rightarrow> bytes \<Rightarrow> js_value + keys_reply"
  asymmetric_save_encrypted_aes_key :: "delegation_identity \<Rightarrow> bytes \<Rightarrow> js_value + unit"
  newAesKey :: bytes
  newTransportKeyPair :: key_pair
  unwrapKey :: "key_pair option \<Rightarrow> bytes \<Rightarrow> bytes \<Rightarrow> bytes \<Rightarrow> principal \<Rightarrow> js_value + bytes"
  wrapKey :: "bytes \<Rightarrow> bytes \<Rightarrow> principal \<Rightarrow> bytes"

subsection \<open>The functions of \<^verbatim>\<open>useAuth\<close>\<close>

text \<open>Modelled from the spec: \<^verbatim>\<open>clearAesRawKey\<close> of \<^verbatim>\<open>@/hooks/useAuth\<close> is missing; it is
  \<^verbatim>\<open>AesKeyStore.clear()\<close>, which wipes the in-memory key.\<close>

definition clearAesRawKey :: "auth_state \<Rightarrow> auth_state" where
  "clearAesRawKey a = a\<lparr>aesRawKey := None\<rparr>"

text \<open>Modelled from the spec: \<^verbatim>\<open>generateAesKey\<close> of \<^verbatim>\<open>@/hooks/useAuth\<close> is missing; it is
  \<^verbatim>\<open>AesKeyStore.generate()\<close>, which creates a new random symmetric key, overwriting any
  existing one.\<close>

definition generateAesKey :: "bootstrap_env \<Rightarrow> auth_state \<Rightarrow> auth_state" where
  "generateAesKey env a = a\<lparr>aesRawKey := Some (newAesKey env)\<rparr>"

text \<open>Modelled from the spec: \<^verbatim>\<open>getTransportPublicKey\<close> of \<^verbatim>\<open>@/hooks/useAuth\<close> is missing; it
  is step 2 of the identity-present algorithm: generate a fresh transport key pair,
  discarding any prior one, and obtain its public key.\<close>

definition getTransportPublicKey :: "bootstrap_env \<Rightarrow> auth_state \<Rightarrow> bytes \<times> auth_state" where
  "getTransportPublicKey env a =
     (let kp = newTransportKeyPair env
      in (publicKeyBytes kp, a\<lparr>transportKeyPair := Some kp\<rparr>))"

text \<open>Modelled from the spec: \<^verbatim>\<open>decryptExistingAesKey\<close> of \<^verbatim>\<open>@/hooks/useAuth\<close> is missing; it
  is \<^verbatim>\<open>AesKeyStore.setFromWrapped\<close>, which delegates to the transport key manager's
  \<^verbatim>\<open>decrypt\<close> and stores the result, and fails on invalid input.\<close>

definition decryptExistingAesKey ::
    "bootstrap_env \<Rightarrow> bytes \<Rightarrow> bytes \<Rightarrow> bytes \<Rightarrow> principal \<Rightarrow> auth_state \<Rightarrow> js_value + auth_state"
  where
  "decryptExistingAesKey env encryptedAesKey encryptedKey publicKey pr a =
     (case unwrapKey env (transportKeyPair a) encryptedAesKey encryptedKey publicKey pr of
        Inl e \<Rightarrow> Inl e
      | Inr k \<Rightarrow> Inr (a\<lparr>aesRawKey := Some k\<rparr>))"

text \<open>Modelled from the spec: \<^verbatim>\<open>generateAndEncryptAesKey\<close> of \<^verbatim>\<open>@/hooks/useAuth\<close> is missing;
  it is \<^verbatim>\<open>AesKeyStore.generate()\<close> followed by \<^verbatim>\<open>encryptForRemote(targetPublicKey)\<close>, which
  encrypts the current key under the remote public key and returns the ciphertext.\<close>

definition generateAndEncryptAesKey ::
    "bootstrap_env \<Rightarrow> bytes \<Rightarrow> principal \<Rightarrow> auth_state \<Rightarrow> bytes \<times> auth_state" where
  "generateAndEncryptAesKey env publicKey pr a =
     (let a1 = generateAesKey env a
      in (wrapKey env (newAesKey env) publicKey pr, a1))"

subsection \<open>The actor of \<^verbatim>\<open>createBackend\<close>\<close>

text \<open>A call of a canister method: the call is logged, then resolves or rejects as the
  environment says.\<close>

definition log_call :: "remote_call \<Rightarrow> app_state \<Rightarrow> app_state" where
  "log_call c s =
     s\<lparr>remoteCalls := remoteCalls s @ [\<lparr>remoteCall = c, keyAtCall = aesRawKey (auth s)\<rparr>]\<rparr>"

definition backend_asymmetric_keys ::
    "bootstrap_env \<Rightarrow> delegation_identity \<Rightarrow> bytes \<Rightarrow> app_state \<Rightarrow> (js_value + keys_reply) \<times> app_state"
  where
  "backend_asymmetric_keys env ident transportPublicKey s =
     (asymmetric_keys env ident transportPublicKey, log_call (FetchKeys transportPublicKey) s)"

definition backend_asymmetric_save_encrypted_aes_key ::
    "bootstrap_env \<Rightarrow> delegation_identity \<Rightarrow> bytes \<Rightarrow> app_state \<Rightarrow> (js_value + unit) \<times> app_state"
  where
  "backend_asymmetric_save_encrypted_aes_key env ident payload s =
     (asymmetric_save_encrypted_aes_key env ident payload, log_call (SaveEncryptedKey payload) s)"

subsection \<open>\<^verbatim>\<open>initAesKey\<close>\<close>

text \<open>\<^verbatim>\<open>err instanceof Error ? err : new Error(String(err))\<close>\<close>

fun as_Error :: "js_value \<Rightarrow> js_error" where
  "as_Error (ErrorValue e) = e"
| "as_Error (OtherValue t) = new_Error (js_String (OtherValue t))"

text \<open>The \<^verbatim>\<open>try\<close> block: the state it leaves and the value it threw, if it threw. The
  \<^verbatim>\<open>console.log\<close> lines are left out.\<close>

definition initAesKey_try :: "bootstrap_env \<Rightarrow> app_state \<Rightarrow> js_value option \<times> app_state" where
  "initAesKey_try env s0 =
     (let s1 = s0\<lparr>error := None, isLoading := True, initializationAttempted := True\<rparr>
      in case currentIdentity env of
           None \<Rightarrow>
             (let s2 = s1\<lparr>initializationStatus := ''Generating new AES key...''\<rparr>;
                  s3 = s2\<lparr>auth := generateAesKey env (auth s2)\<rparr>;
                  s4 = s3\<lparr>initializationStatus := ''AES key generated''\<rparr>
              in (None, s4\<lparr>initializationCompleted := True\<rparr>))
         | Some ident \<Rightarrow>
             (let s2 = s1\<lparr>auth := clearAesRawKey (auth s1)\<rparr>;
                  s3 = s2\<lparr>initializationStatus := ''Fetching keys from backend...''\<rparr>;
                  (transportPublicKey, a) = getTransportPublicKey env (auth s3);
                  s4 = s3\<lparr>auth := a\<rparr>
              in case backend_asymmetric_keys env ident transportPublicKey s4 of
                   (Inl err, s5) \<Rightarrow> (Some err, s5)
                 | (Inr keysReply, s5) \<Rightarrow>
                     (let publicKey = public_key keysReply;
                          pr = getPrincipal ident
                      in case (encrypted_aes_key keysReply, encrypted_key keysReply) of
                           (Some encryptedAesKey, Some encryptedKey) \<Rightarrow>
                             (let s6 = s5\<lparr>initializationStatus :=
                                             ''Decrypting existing AES key...''\<rparr>
                              in case decryptExistingAesKey env encryptedAesKey encryptedKey
                                        publicKey pr (auth s6) of
                                   Inl err \<Rightarrow> (Some err, s6)
                                 | Inr a' \<Rightarrow>
                                     (None,
                                      s6\<lparr>auth := a',
                                         initializationStatus :=
                                           ''AES key initialization completed'',
                                         initializationCompleted := True\<rparr>))
                         | _ \<Rightarrow>
                             (let s6 = s5\<lparr>initializationStatus :=
                                             ''Generating and encrypting new AES key...''\<rparr>;
                                  (newEncryptedAesKey, a') =
                                     generateAndEncryptAesKey env publicKey pr (auth s6);
                                  s7 = s6\<lparr>auth := a',
                                          initializationStatus :=
                                            ''Saving encrypted AES key...''\<rparr>
                              in case backend_asymmetric_save_encrypted_aes_key env ident
                                        newEncryptedAesKey s7 of
                                   (Inl err, s8) \<Rightarrow> (Some err, s8)
                                 | (Inr _, s8) \<Rightarrow>
                                     (None,
                                      s8\<lparr>initializationStatus :=
                                           ''AES key initialization completed'',
                                         initializationCompleted := True\<rparr>)))))"

text \<open>The \<^verbatim>\<open>catch\<close> clause.\<close>

definition initAesKey_catch :: "js_value \<Rightarrow> app_state \<Rightarrow> app_state" where
  "initAesKey_catch err s =
     s\<lparr>initializationStatus := ''Failed to initialize AES key: '' @ js_String err,
       error := Some (as_Error err)\<rparr>"

text \<open>One call of \<^verbatim>\<open>initAesKey\<close>, run to the end of its \<^verbatim>\<open>finally\<close> clause. The guard
  reads the \<^verbatim>\<open>isLoading\<close> the callback closes over, not the state \<^verbatim>\<open>setIsLoading\<close>
  writes.\<close>

definition initAesKey :: "bootstrap_env \<Rightarrow> app_state \<Rightarrow> app_state" where
  "initAesKey env s =
     (if capturedIsLoading env then s
      else case initAesKey_try env s of
             (None, s1) \<Rightarrow> s1\<lparr>isLoading := False\<rparr>
           | (Some err, s1) \<Rightarrow> (initAesKey_catch err s1)\<lparr>isLoading := False\<rparr>)"


subsection \<open>The status the component shows\<close>

text \<open>
  The spec's \<open>BootstrapStatus\<close>, read off the component's state in the order the component
  renders it: the loading view while \<^verbatim>\<open>isLoading\<close>, the error view while \<^verbatim>\<open>error\<close> is set,
  the application otherwise.
\<close>

datatype bootstrap_status =
    NotStarted
  | InProgress string
  | Completed
  | Failed js_error string

definition bootstrapStatus :: "app_state \<Rightarrow> bootstrap_status" where
  "bootstrapStatus s =
     (if isLoading s then InProgress (initializationStatus s)
      else case error s of
             Some e \<Rightarrow> Failed e (initializationStatus s)
           | None \<Rightarrow> if initializationCompleted s then Completed else NotStarted)"

section \<open>Notions of the specification\<close>

subsection \<open>The delegation handoff\<close>

text \<open>The two errors the handoff page raises itself, under the names the specification
  gives them.\<close>

definition SigningNotSupported :: js_value where
  "SigningNotSupported = ErrorValue (new_Error ''Cannot sign with incomplete identity'')"

definition MissingParameter :: js_value where
  "MissingParameter = ErrorValue (new_Error missing_message)"

text \<open>The query parameters with every entry of one name removed.\<close>

definition without_param :: "string \<Rightarrow> (string \<times> string) list \<Rightarrow> (string \<times> string) list" where
  "without_param name qs = filter (\<lambda>kv. fst kv \<noteq> name) qs"

text \<open>
  The step at which a handoff fails, if any, as the text of its error: parsing the
  parameters, creating the client, finding the login button, the login itself (thrown or
  rejected by the provider), retrieving and serialising the delegation. \<open>None\<close> when no
  step fails: the login succeeded with a delegation, or has not ended.
\<close>

definition handoff_failure :: "'d handoff_env \<Rightarrow> page \<Rightarrow> string option" where
  "handoff_failure env p =
     (case fst (parseParams env p) of
        Inl e \<Rightarrow> Some (formatError ''initialization failed'' e)
      | Inr ps \<Rightarrow>
          (case authClientCreate env (identity ps) of
             Inl e \<Rightarrow> Some (formatError ''initialization failed'' e)
           | Inr _ \<Rightarrow>
               if \<not> loginButton p
               then Some (formatError ''initialization failed'' (nullAccessError env))
               else
                 (case login env (iiUri ps) of
                    LoginThrows e \<Rightarrow> Some (formatError ''login process failed'' e)
                  | LoginError t \<Rightarrow>
                      Some (formatError ''authentication rejected''
                              (OtherValue (or_default t ''Unknown error'')))
                  | LoginPending \<Rightarrow> None
                  | LoginSuccess \<Rightarrow>
                      (case delegationJSON env (getIdentity env) of
                         Inl e \<Rightarrow> Some (formatError ''delegation retrieval failed'' e)
                       | Inr _ \<Rightarrow> None))))"

subsection \<open>Example pages and surroundings\<close>

definition example_page :: page where
  "example_page =
     \<lparr>errorElement = Some \<lparr>textContent = [], display = ''none''\<rparr>,
      loginButton = True,
      href = ''https://landing.example/'',
      console = []\<rparr>"

definition bare_page :: page where
  "bare_page = example_page\<lparr>errorElement := None\<rparr>"

definition example_handoff_env :: "string handoff_env" where
  "example_handoff_env =
     \<lparr>searchParams =
        [(''redirect_uri'', ''https://app.example/cb''), (''pubkey'', ''abcd''),
         (''ii_uri'', ''https://id.example'')],
      fromDerHex = (\<lambda>h. Inr [0xAB, 0xCD]),
      authClientCreate = (\<lambda>i. Inr ()),
      nullAccessError = ErrorValue (JsError ''TypeError'' ''null has no properties''),
      login = (\<lambda>u. LoginSuccess),
      getIdentity = ''{\"a\": 1}'',
      delegationJSON = Inr\<rparr>"

definition rejecting_env :: "string handoff_env" where
  "rejecting_env = example_handoff_env\<lparr>login := (\<lambda>u. LoginError (Some ''ProviderRejected''))\<rparr>"

definition no_pubkey_env :: "string handoff_env" where
  "no_pubkey_env =
     example_handoff_env
       \<lparr>searchParams :=
          [(''redirect_uri'', ''https://app.example/cb''), (''ii_uri'', ''https://id.example'')]\<rparr>"

definition empty_pubkey_env :: "string handoff_env" where
  "empty_pubkey_env =
     example_handoff_env
       \<lparr>searchParams :=
          [(''redirect_uri'', ''https://app.example/cb''), (''pubkey'', []),
           (''ii_uri'', ''https://id.example'')]\<rparr>"

subsection \<open>The bootstrap\<close>

text \<open>How many of the logged remote calls are \<open>fetchKeys\<close> calls (\<^verbatim>\<open>asymmetric_keys\<close>) and
  how many are \<open>saveEncryptedKey\<close> calls (\<^verbatim>\<open>asymmetric_save_encrypted_aes_key\<close>).\<close>

fun is_fetch :: "remote_call \<Rightarrow> bool" where
  "is_fetch (FetchKeys t) = True"
| "is_fetch (SaveEncryptedKey c) = False"

definition fetchKeys_count :: "call_entry list \<Rightarrow> nat" where
  "fetchKeys_count cs = length (filter (\<lambda>c. is_fetch (remoteCall c)) cs)"

definition saveEncryptedKey_count :: "call_entry list \<Rightarrow> nat" where
  "saveEncryptedKey_count cs = length (filter (\<lambda>c. \<not> is_fetch (remoteCall c)) cs)"

subsection \<open>Example states and surroundings of the bootstrap\<close>

definition example_identity :: delegation_identity where
  "example_identity = DelegationIdentity [1, 2, 3]"

text \<open>A component that has not started, with a symmetric key left from before.\<close>

definition example_state :: app_state where
  "example_state =
     \<lparr>initializationStatus = [],
      isLoading = False,
      error = None,
      initializationCompleted = False,
      initializationAttempted = False,
      auth = \<lparr>aesRawKey = Some [9, 9], transportKeyPair = None\<rparr>,
      remoteCalls = []\<rparr>"


text \<open>A keystore that holds wrapped key material for the identity, and primitives that
  unwrap it.\<close>

definition example_bootstrap_env :: bootstrap_env where
  "example_bootstrap_env =
     \<lparr>currentIdentity = Some example_identity,
      capturedIsLoading = False,
      asymmetric_keys =
        (\<lambda>i t. Inr \<lparr>public_key = [7], encrypted_aes_key = Some [1],
                     encrypted_key = Some [2]\<rparr>),
      asymmetric_save_encrypted_aes_key = (\<lambda>i payload. Inr ()),
      newAesKey = [5, 5],
      newTransportKeyPair = \<lparr>publicKeyBytes = [4], privateKeyHandle = [6]\<rparr>,
      unwrapKey =
        (\<lambda>kp a b pk pr.
           case kp of
             None \<Rightarrow> Inl (ErrorValue (new_Error ''no transport key''))
           | Some _ \<Rightarrow> Inr [8, 8]),
      wrapKey = (\<lambda>k pk pr. k @ pk)\<rparr>"

text \<open>The keystore replies with only one of the two optional fields.\<close>

definition partial_reply_env :: bootstrap_env where
  "partial_reply_env =
     example_bootstrap_env
       \<lparr>asymmetric_keys :=
          (\<lambda>i t. Inr \<lparr>public_key = [7], encrypted_aes_key = Some [1],
                       encrypted_key = None\<rparr>)\<rparr>"

text \<open>The keystore replies with both fields, and the transport key does not unwrap
  them.\<close>

definition tampered_reply_env :: bootstrap_env where
  "tampered_reply_env =
     example_bootstrap_env
       \<lparr>unwrapKey := (\<lambda>kp a b pk pr. Inl (ErrorValue (new_Error ''decryption failed'')))\<rparr>"

text \<open>The call of \<^verbatim>\<open>asymmetric_keys\<close> is rejected.\<close>

definition failing_fetch_env :: bootstrap_env where
  "failing_fetch_env =
     example_bootstrap_env
       \<lparr>asymmetric_keys := (\<lambda>i t. Inl (ErrorValue (new_Error ''network unreachable'')))\<rparr>"

text \<open>Nobody is logged in.\<close>

definition anonymous_env :: bootstrap_env where
  "anonymous_env = example_bootstrap_env\<lparr>currentIdentity := None\<rparr>"

section \<open>Properties of the delegation handoff\<close>

subsection \<open>Percent-encoding\<close>

lemma hexValue_hexDigit: "n < 16 \<Longrightarrow> hexValue (hexDigit n) = Some n"
  by (auto simp: hexValue_def hexDigit_def char_between_def)

lemma of_char_div_16: "(of_char c :: nat) div 16 < 16"
proof -
  have "(of_char c :: nat) < 256" by (rule nat_of_char_less_256)
  then show ?thesis by arith
qed

lemma percent_is_escaped: "\<not> uriUnescaped CHR ''%''"
  by (simp add: uriUnescaped_def char_between_def)

lemma decode_percentEncode:
  "decodeURIComponent (percentEncode c @ rest) = map_option ((#) c) (decodeURIComponent rest)"
  by (simp add: percentEncode_def hexValue_hexDigit of_char_div_16)

lemma decode_unescaped:
  "uriUnescaped c \<Longrightarrow>
     decodeURIComponent (c # rest) = map_option ((#) c) (decodeURIComponent rest)"
  using percent_is_escaped by auto

lemma decode_encode: "decodeURIComponent (encodeURIComponent s) = Some s"
proof (induction s)
  case Nil
  show ?case by simp
next
  case (Cons c cs)
  show ?case
  proof (cases "uriUnescaped c")
    case True
    then show ?thesis
      using Cons.IH by (simp add: decode_unescaped del: decodeURIComponent.simps)
  next
    case False
    then show ?thesis
      using Cons.IH by (simp add: decode_percentEncode del: decodeURIComponent.simps)
  qed
qed

subsection \<open>What \<^verbatim>\<open>renderError\<close> and \<^verbatim>\<open>parseParams\<close> do to the page\<close>

lemma formatError_not_falsy: "\<not> falsy (formatError pre e)"
  by (simp add: formatError_def falsy_def)

lemma renderError_href: "href (renderError m p) = href p"
  by (simp add: renderError_def split: option.split)

lemma renderError_None:
  "errorElement p = None \<Longrightarrow> errorElement (renderError m p) = None"
  by (simp add: renderError_def)

lemma renderError_Some:
  "errorElement p = Some el \<Longrightarrow>
     errorElement (renderError m p) =
       Some (el\<lparr>textContent := m, display := (if falsy m then ''none'' else ''block'')\<rparr>)"
  by (simp add: renderError_def)

lemma parseParams_page:
  "snd (parseParams env p) = p \<or> snd (parseParams env p) = renderError missing_message p"
  by (simp add: parseParams_def Let_def new_Error_def split: option.split sum.split)

lemma parseParams_ok_page: "parseParams env p = (Inr ps, p1) \<Longrightarrow> p1 = p"
  by (auto simp add: parseParams_def Let_def new_Error_def
      split: option.splits sum.splits if_splits)

lemma parseParams_ok_redirect:
  "parseParams env p = (Inr ps, p1) \<Longrightarrow>
     searchParams_get (searchParams env) ''redirect_uri'' = Some (redirectUri ps)"
  by (cases "searchParams_get (searchParams env) ''redirect_uri''")
    (auto simp add: parseParams_def Let_def new_Error_def falsy_def
      split: option.splits sum.splits if_splits)

lemma parseParams_falsy:
  assumes "falsy (or_default (searchParams_get (searchParams env) ''redirect_uri'') []) \<or>
           falsy_opt (searchParams_get (searchParams env) ''pubkey'') \<or>
           falsy_opt (searchParams_get (searchParams env) ''ii_uri'')"
  shows "parseParams env p = (Inl MissingParameter, renderError missing_message p)"
  using assms by (simp add: parseParams_def MissingParameter_def new_Error_def Let_def)

lemma get_without_param: "searchParams_get (without_param name qs) name = None"
  by (induction qs) (auto simp: without_param_def)

subsection \<open>\<^verbatim>\<open>main\<close> and the click listener, step by step\<close>

lemma main_None:
  assumes "main env p = (p1, None)"
  shows "href p1 = href p"
    and "errorElement p = None \<Longrightarrow> errorElement p1 = None"
    and "errorElement p = Some el \<Longrightarrow>
           \<exists>m. handoff_failure env p = Some m \<and>
               errorElement p1 = Some (el\<lparr>textContent := m, display := ''block''\<rparr>)"
proof -
  obtain r q where pq: "parseParams env p = (r, q)" by (cases "parseParams env p")
  have q: "q = p \<or> q = renderError missing_message p"
    using parseParams_page [of env p] pq by simp
  from q have hq: "href q = href p"
    by (auto simp: renderError_href)
  from q have qn: "errorElement p = None \<Longrightarrow> errorElement q = None"
    by (auto simp: renderError_None)
  from assms pq
  have "\<exists>e. p1 = renderError (formatError ''initialization failed'' e) q \<and>
            handoff_failure env p = Some (formatError ''initialization failed'' e)"
    by (auto simp: main_def handoff_failure_def split: sum.splits if_splits
        dest: parseParams_ok_page)
  then obtain e where p1: "p1 = renderError (formatError ''initialization failed'' e) q"
    and hf: "handoff_failure env p = Some (formatError ''initialization failed'' e)" by blast
  show "href p1 = href p" using p1 hq by (simp add: renderError_href)
  show "errorElement p1 = None" if "errorElement p = None"
    using p1 qn [OF that] by (simp add: renderError_None)
  show "\<exists>m. handoff_failure env p = Some m \<and>
               errorElement p1 = Some (el\<lparr>textContent := m, display := ''block''\<rparr>)"
    if el: "errorElement p = Some el"
  proof -
    from q have "\<exists>t d. errorElement q = Some (el\<lparr>textContent := t, display := d\<rparr>)"
    proof
      assume "q = p"
      then have "errorElement q =
          Some (el\<lparr>textContent := textContent el, display := display el\<rparr>)"
        using el by simp
      then show ?thesis by blast
    next
      assume "q = renderError missing_message p"
      then show ?thesis using renderError_Some [OF el] by blast
    qed
    then obtain t d where "errorElement q = Some (el\<lparr>textContent := t, display := d\<rparr>)"
      by blast
    from renderError_Some [OF this] p1 hf show ?thesis
      by (simp add: formatError_not_falsy)
  qed
qed

lemma main_Some:
  assumes "main env p = (p1, Some ps)"
  shows "p1 = p" and "fst (parseParams env p) = Inr ps"
    and "\<exists>u. authClientCreate env (identity ps) = Inr u" and "loginButton p"
  using assms
  by (auto simp: main_def split: prod.splits sum.splits if_splits dest: parseParams_ok_page)

lemma handoff_failure_Some:
  assumes "main env p = (p, Some ps)"
  shows "handoff_failure env p =
           (case login env (iiUri ps) of
              LoginThrows e \<Rightarrow> Some (formatError ''login process failed'' e)
            | LoginError t \<Rightarrow>
                Some (formatError ''authentication rejected''
                        (OtherValue (or_default t ''Unknown error'')))
            | LoginPending \<Rightarrow> None
            | LoginSuccess \<Rightarrow>
                (case delegationJSON env (getIdentity env) of
                   Inl e \<Rightarrow> Some (formatError ''delegation retrieval failed'' e)
                 | Inr _ \<Rightarrow> None))"
  using main_Some [OF assms] by (auto simp: handoff_failure_def)

lemma click_no_element:
  "errorElement p = None \<Longrightarrow> errorElement (click env ps p) = None"
  by (simp add: click_def onSuccess_def onError_def renderError_None Let_def
      split: login_outcome.split sum.split)

lemma click_failure:
  assumes "main env p = (p, Some ps)" and "handoff_failure env p = Some m"
  shows "href (click env ps p) = href p"
    and "errorElement p = Some el \<Longrightarrow>
           errorElement (click env ps p) = Some (el\<lparr>textContent := m, display := ''block''\<rparr>)"
proof -
  note hf = assms(2) [unfolded handoff_failure_Some [OF assms(1)]]
  show "href (click env ps p) = href p"
    using hf
    by (auto simp: click_def onSuccess_def onError_def renderError_href
        buildRedirectURLWithDelegation_def Let_def split: login_outcome.splits sum.splits)
  show "errorElement (click env ps p) = Some (el\<lparr>textContent := m, display := ''block''\<rparr>)"
    if el: "errorElement p = Some el"
  proof -
    have r1: "errorElement (renderError [] p) =
                Some (el\<lparr>textContent := [], display := ''none''\<rparr>)"
      using renderError_Some [OF el, of "[]"] by (simp add: falsy_def)
    have r2: "errorElement (renderError [] (renderError [] p)) =
                Some (el\<lparr>textContent := [], display := ''none''\<rparr>)"
      using renderError_Some [OF r1, of "[]"] by (simp add: falsy_def)
    show ?thesis
      using hf renderError_Some [OF r1] renderError_Some [OF r2]
      by (auto simp: click_def onSuccess_def onError_def formatError_not_falsy
          buildRedirectURLWithDelegation_def Let_def split: login_outcome.splits sum.splits)
  qed
qed

lemma click_success:
  assumes "login env (iiUri ps) = LoginSuccess"
    and "delegationJSON env (getIdentity env) = Inr json"
  shows "href (click env ps p) = redirectUri ps @ ''?delegation='' @ encodeURIComponent json"
  using assms
  by (simp add: click_def onSuccess_def buildRedirectURLWithDelegation_def Let_def)

subsection \<open>The claims about the handoff\<close>

text \<open>
  C2. A sign request on a public-key-only identity fails with the error the
  specification calls \<open>SigningNotSupported\<close>, whatever the blob, and so never returns a
  signature; this holds in particular for the identity \<^verbatim>\<open>parseParams\<close> constructs.
\<close>

theorem sign_not_supported:
  "sign i blob = Inl SigningNotSupported \<and>
   (\<forall>sg. sign i blob \<noteq> Inr sg) \<and>
   (fst (parseParams env p) = Inr ps \<longrightarrow> sign (identity ps) blob = Inl SigningNotSupported)"
proof -
  have "sign j blob = Inl SigningNotSupported" for j
    by (cases j) (simp add: SigningNotSupported_def)
  then show ?thesis by simp
qed

theorem sign_not_supported_witness:
  "fst (parseParams example_handoff_env example_page) =
     Inr \<lparr>redirectUri = ''https://app.example/cb'',
          identity = PublicKeyOnlyIdentity [0xAB, 0xCD],
          iiUri = ''https://id.example''\<rparr> \<and>
   sign (PublicKeyOnlyIdentity [0xAB, 0xCD]) [1, 2, 3] =
     Inl (ErrorValue (JsError ''Error'' ''Cannot sign with incomplete identity''))"
proof -
  have h: "fst (parseParams example_handoff_env example_page) =
     Inr \<lparr>redirectUri = ''https://app.example/cb'',
          identity = PublicKeyOnlyIdentity [0xAB, 0xCD],
          iiUri = ''https://id.example''\<rparr>"
    by (simp add: parseParams_def example_handoff_env_def falsy_def)
  from sign_not_supported [of _ "[1, 2, 3]" example_handoff_env example_page] h
  show ?thesis
    by (simp add: SigningNotSupported_def new_Error_def)
qed

text \<open>
  C3, as the program has it. Whenever a step of the handoff fails (parsing the
  parameters, creating the client, finding the button, the login thrown or rejected by
  the provider, retrieving or serialising the delegation), \<^verbatim>\<open>window.location.href\<close> is
  left as it was: no navigation occurs. If the page has an \<^verbatim>\<open>#error\<close> element, the text of
  the error is written into it and it is displayed as a block; if the page has none,
  nothing is rendered (the failure goes to the console only).
\<close>

theorem handoff_failure_no_navigation:
  assumes "handoff_failure env p = Some m"
  shows "href (handoff env p) = href p \<and>
         (\<forall>el. errorElement p = Some el \<longrightarrow>
            errorElement (handoff env p) =
              Some (el\<lparr>textContent := m, display := ''block''\<rparr>)) \<and>
         (errorElement p = None \<longrightarrow> errorElement (handoff env p) = None)"
proof -
  obtain p1 r where m: "main env p = (p1, r)" by (cases "main env p")
  show ?thesis
  proof (cases r)
    case None
    with m have mn: "main env p = (p1, None)" by simp
    have h: "handoff env p = p1" using mn by (simp add: handoff_def)
    show ?thesis unfolding h using main_None [OF mn] assms by auto
  next
    case (Some ps)
    with m have ms: "main env p = (p, Some ps)" using main_Some(1) by blast
    have h: "handoff env p = click env ps p" using ms by (simp add: handoff_def)
    show ?thesis unfolding h using click_failure [OF ms assms] click_no_element [of p env ps]
      by auto
  qed
qed

theorem handoff_failure_no_navigation_witness:
  "handoff_failure rejecting_env example_page =
     Some ''Internet Identity authentication rejected: ProviderRejected'' \<and>
   href (handoff rejecting_env example_page) = ''https://landing.example/'' \<and>
   errorElement (handoff rejecting_env example_page) =
     Some \<lparr>textContent = ''Internet Identity authentication rejected: ProviderRejected'',
           display = ''block''\<rparr>"
proof -
  have h: "handoff_failure rejecting_env example_page =
             Some ''Internet Identity authentication rejected: ProviderRejected''"
    by (simp add: handoff_failure_def rejecting_env_def example_handoff_env_def example_page_def
        parseParams_def falsy_def formatError_def)
  from handoff_failure_no_navigation [OF h] h show ?thesis
    by (simp add: example_page_def)
qed

text \<open>
  C3, as the claim states it, fails on a page without an \<^verbatim>\<open>#error\<close> element: the handoff
  fails (the public key is missing), and no text is rendered; \<^verbatim>\<open>renderError\<close> only writes
  to the console, once from \<^verbatim>\<open>parseParams\<close> and once from \<^verbatim>\<open>main\<close>.
\<close>

theorem handoff_error_not_rendered:
  "handoff_failure no_pubkey_env bare_page =
     Some ''Internet Identity initialization failed: Missing redirect_uri, pubkey, or ii_uri in query string'' \<and>
   errorElement (handoff no_pubkey_env bare_page) = None \<and>
   console (handoff no_pubkey_env bare_page) =
     [''Error element not found'', ''Error element not found'']"
  by (simp add: handoff_failure_def handoff_def main_def no_pubkey_env_def
      example_handoff_env_def bare_page_def example_page_def parseParams_def falsy_def
      renderError_def new_Error_def formatError_def missing_message_def)

text \<open>
  C8. When any of \<^verbatim>\<open>redirect_uri\<close>, \<^verbatim>\<open>pubkey\<close>, \<^verbatim>\<open>ii_uri\<close> is absent from the query,
  \<^verbatim>\<open>parseParams\<close> throws the error the specification calls \<open>MissingParameter\<close> (after
  rendering its message) and returns no parameters, hence no identity; the decoder of the
  public key, whose result the identity is constructed from, is not consulted.
\<close>

theorem parseParams_missing_parameter:
  assumes "searchParams_get (searchParams env) ''redirect_uri'' = None \<or>
           searchParams_get (searchParams env) ''pubkey'' = None \<or>
           searchParams_get (searchParams env) ''ii_uri'' = None"
  shows "parseParams env p = (Inl MissingParameter, renderError missing_message p) \<and>
         (\<forall>f. parseParams (env\<lparr>fromDerHex := f\<rparr>) p = parseParams env p)"
proof -
  have f: "falsy (or_default (searchParams_get (searchParams env) ''redirect_uri'') []) \<or>
           falsy_opt (searchParams_get (searchParams env) ''pubkey'') \<or>
           falsy_opt (searchParams_get (searchParams env) ''ii_uri'')"
    using assms by (auto simp: falsy_def)
  have "parseParams (env\<lparr>fromDerHex := g\<rparr>) p =
          (Inl MissingParameter, renderError missing_message p)" for g
    using f by (intro parseParams_falsy) simp
  with parseParams_falsy [OF f] show ?thesis by simp
qed

theorem parseParams_missing_parameter_witness:
  "searchParams_get (searchParams no_pubkey_env) ''pubkey'' = None \<and>
   parseParams no_pubkey_env example_page =
     (Inl (ErrorValue
        (JsError ''Error'' ''Missing redirect_uri, pubkey, or ii_uri in query string'')),
      example_page\<lparr>errorElement :=
        Some \<lparr>textContent = ''Missing redirect_uri, pubkey, or ii_uri in query string'',
              display = ''block''\<rparr>\<rparr>)"
proof -
  have h: "searchParams_get (searchParams no_pubkey_env) ''pubkey'' = None"
    by (simp add: no_pubkey_env_def example_handoff_env_def)
  then have "searchParams_get (searchParams no_pubkey_env) ''redirect_uri'' = None \<or>
           searchParams_get (searchParams no_pubkey_env) ''pubkey'' = None \<or>
           searchParams_get (searchParams no_pubkey_env) ''ii_uri'' = None" by simp
  from parseParams_missing_parameter [OF this, of example_page] h show ?thesis
    by (simp add: MissingParameter_def new_Error_def missing_message_def renderError_def
        example_page_def falsy_def)
qed

text \<open>
  C10. When \<^verbatim>\<open>searchParams.get\<close> gives the empty string for one of the three parameters,
  \<^verbatim>\<open>parseParams\<close> fails with \<open>MissingParameter\<close>, exactly as it does on the query with that
  parameter removed, and constructs no identity.
\<close>

theorem parseParams_empty_parameter:
  assumes "name = ''redirect_uri'' \<or> name = ''pubkey'' \<or> name = ''ii_uri''"
    and "searchParams_get (searchParams env) name = Some []"
  shows "parseParams env p = (Inl MissingParameter, renderError missing_message p) \<and>
         parseParams (env\<lparr>searchParams := without_param name (searchParams env)\<rparr>) p =
           parseParams env p \<and>
         (\<forall>f. parseParams (env\<lparr>fromDerHex := f\<rparr>) p = parseParams env p)"
proof -
  have f: "falsy (or_default (searchParams_get (searchParams env) ''redirect_uri'') []) \<or>
           falsy_opt (searchParams_get (searchParams env) ''pubkey'') \<or>
           falsy_opt (searchParams_get (searchParams env) ''ii_uri'')"
    using assms by (auto simp: falsy_def)
  let ?env' = "env\<lparr>searchParams := without_param name (searchParams env)\<rparr>"
  have "searchParams_get (searchParams ?env') name = None"
    by (simp add: get_without_param)
  then have f':
    "falsy (or_default (searchParams_get (searchParams ?env') ''redirect_uri'') []) \<or>
     falsy_opt (searchParams_get (searchParams ?env') ''pubkey'') \<or>
     falsy_opt (searchParams_get (searchParams ?env') ''ii_uri'')"
    using assms(1) by (auto simp: falsy_def)
  have "parseParams (env\<lparr>fromDerHex := g\<rparr>) p =
          (Inl MissingParameter, renderError missing_message p)" for g
    using f by (intro parseParams_falsy) simp
  with parseParams_falsy [OF f] parseParams_falsy [OF f'] show ?thesis by simp
qed

theorem parseParams_empty_parameter_witness:
  "searchParams_get (searchParams empty_pubkey_env) ''pubkey'' = Some [] \<and>
   fst (parseParams empty_pubkey_env example_page) =
     Inl (ErrorValue
       (JsError ''Error'' ''Missing redirect_uri, pubkey, or ii_uri in query string'')) \<and>
   parseParams (empty_pubkey_env\<lparr>searchParams :=
        [(''redirect_uri'', ''https://app.example/cb''), (''ii_uri'', ''https://id.example'')]\<rparr>)
      example_page = parseParams empty_pubkey_env example_page"
proof -
  have h: "searchParams_get (searchParams empty_pubkey_env) ''pubkey'' = Some []"
    by (simp add: empty_pubkey_env_def example_handoff_env_def)
  have w: "without_param ''pubkey'' (searchParams empty_pubkey_env) =
        [(''redirect_uri'', ''https://app.example/cb''), (''ii_uri'', ''https://id.example'')]"
    by (simp add: without_param_def empty_pubkey_env_def example_handoff_env_def)
  from parseParams_empty_parameter [of "''pubkey''" empty_pubkey_env example_page, OF _ h] h w
  show ?thesis
    by (simp add: MissingParameter_def new_Error_def missing_message_def)
qed

text \<open>
  C9. When the handoff succeeds (the listener is registered, the login calls
  \<^verbatim>\<open>onSuccess\<close>, the delegation serialises to \<open>json\<close>), the page navigates to the redirect
  URI of the query followed by \<^verbatim>\<open>?delegation=\<close> and the percent-encoded \<open>json\<close>; what
  follows \<^verbatim>\<open>?delegation=\<close> decodes to \<open>json\<close> exactly.
\<close>

theorem handoff_navigation_url:
  assumes "main env p = (p1, Some ps)"
    and "login env (iiUri ps) = LoginSuccess"
    and "delegationJSON env (getIdentity env) = Inr json"
  shows "searchParams_get (searchParams env) ''redirect_uri'' = Some (redirectUri ps) \<and>
         buildRedirectURLWithDelegation (delegationJSON env) (redirectUri ps) (getIdentity env) =
           Inr (redirectUri ps @ ''?delegation='' @ encodeURIComponent json) \<and>
         href (handoff env p) = redirectUri ps @ ''?delegation='' @ encodeURIComponent json \<and>
         decodeURIComponent
           (drop (length (redirectUri ps @ ''?delegation='')) (href (handoff env p))) = Some json"
proof -
  have p1: "p1 = p" using main_Some(1) [OF assms(1)] .
  have "\<exists>q. parseParams env p = (Inr ps, q)"
    using main_Some(2) [OF assms(1)] by (cases "parseParams env p") simp
  then have r: "searchParams_get (searchParams env) ''redirect_uri'' = Some (redirectUri ps)"
    using parseParams_ok_redirect by blast
  have b: "buildRedirectURLWithDelegation (delegationJSON env) (redirectUri ps) (getIdentity env) =
           Inr (redirectUri ps @ ''?delegation='' @ encodeURIComponent json)"
    using assms(3) by (simp add: buildRedirectURLWithDelegation_def)
  have h: "href (handoff env p) = redirectUri ps @ ''?delegation='' @ encodeURIComponent json"
    using assms(1) click_success [OF assms(2,3)] by (simp add: handoff_def p1)
  have d: "decodeURIComponent
      (drop (length (redirectUri ps @ ''?delegation='')) (href (handoff env p))) = Some json"
    unfolding h using decode_encode [of json] by (simp del: decodeURIComponent.simps)
  from r b h d show ?thesis by blast
qed

theorem handoff_navigation_url_witness:
  "href (handoff example_handoff_env example_page) =
     ''https://app.example/cb?delegation=%7B%22a%22%3A%201%7D'' \<and>
   decodeURIComponent ''%7B%22a%22%3A%201%7D'' = Some ''{\"a\": 1}''"
proof -
  let ?ps = "\<lparr>redirectUri = ''https://app.example/cb'',
          identity = PublicKeyOnlyIdentity [0xAB, 0xCD],
          iiUri = ''https://id.example''\<rparr>"
  have m: "main example_handoff_env example_page = (example_page, Some ?ps)"
    by (simp add: main_def parseParams_def example_handoff_env_def example_page_def falsy_def)
  have l: "login example_handoff_env (iiUri ?ps) = LoginSuccess"
    by (simp add: example_handoff_env_def)
  have j: "delegationJSON example_handoff_env (getIdentity example_handoff_env) =
             Inr ''{\"a\": 1}''"
    by (simp add: example_handoff_env_def)
  have e: "encodeURIComponent ''{\"a\": 1}'' = ''%7B%22a%22%3A%201%7D''"
    by code_simp
  note w = handoff_navigation_url [OF m l j, unfolded e]
  from w have h: "href (handoff example_handoff_env example_page) =
      ''https://app.example/cb?delegation=%7B%22a%22%3A%201%7D''"
    by simp
  from w have "decodeURIComponent
      (drop (length (redirectUri ?ps @ ''?delegation=''))
         (href (handoff example_handoff_env example_page))) = Some ''{\"a\": 1}''"
    by (elim conjE)
  then have "decodeURIComponent ''%7B%22a%22%3A%201%7D'' = Some ''{\"a\": 1}''"
    unfolding h by (simp del: decodeURIComponent.simps)
  with h show ?thesis by (simp del: decodeURIComponent.simps)
qed

section \<open>Properties of the encryption-key bootstrap\<close>

subsection \<open>The \<^verbatim>\<open>try\<close> block, path by path\<close>


lemma initAesKey_try_no_identity:
  assumes "currentIdentity env = None"
  shows "initAesKey_try env s =
     (None,
      s\<lparr>error := None, isLoading := True, initializationAttempted := True,
        auth := (auth s)\<lparr>aesRawKey := Some (newAesKey env)\<rparr>,
        initializationStatus := ''AES key generated'',
        initializationCompleted := True\<rparr>)"
  using assms by (simp add: initAesKey_try_def generateAesKey_def Let_def)

lemma initAesKey_try_fetch_failed:
  assumes "currentIdentity env = Some ident"
    and "asymmetric_keys env ident (publicKeyBytes (newTransportKeyPair env)) = Inl err"
  shows "initAesKey_try env s =
     (Some err,
      s\<lparr>error := None, isLoading := True, initializationAttempted := True,
        auth := (auth s)\<lparr>aesRawKey := None,
                          transportKeyPair := Some (newTransportKeyPair env)\<rparr>,
        initializationStatus := ''Fetching keys from backend...'',
        remoteCalls := remoteCalls s @
          [\<lparr>remoteCall = FetchKeys (publicKeyBytes (newTransportKeyPair env)),
            keyAtCall = None\<rparr>]\<rparr>)"
  using assms
  by (simp add: initAesKey_try_def clearAesRawKey_def getTransportPublicKey_def
      backend_asymmetric_keys_def log_call_def Let_def)

lemma initAesKey_try_decrypt:
  assumes "currentIdentity env = Some ident"
    and "asymmetric_keys env ident (publicKeyBytes (newTransportKeyPair env)) = Inr reply"
    and "encrypted_aes_key reply = Some eak" and "encrypted_key reply = Some ek"
  shows "initAesKey_try env s =
     (case unwrapKey env (Some (newTransportKeyPair env)) eak ek (public_key reply)
             (getPrincipal ident) of
        Inl err \<Rightarrow>
          (Some err,
           s\<lparr>error := None, isLoading := True, initializationAttempted := True,
             auth := (auth s)\<lparr>aesRawKey := None,
                               transportKeyPair := Some (newTransportKeyPair env)\<rparr>,
             initializationStatus := ''Decrypting existing AES key...'',
             remoteCalls := remoteCalls s @
               [\<lparr>remoteCall = FetchKeys (publicKeyBytes (newTransportKeyPair env)),
                 keyAtCall = None\<rparr>]\<rparr>)
      | Inr k \<Rightarrow>
          (None,
           s\<lparr>error := None, isLoading := True, initializationAttempted := True,
             auth := (auth s)\<lparr>aesRawKey := Some k,
                               transportKeyPair := Some (newTransportKeyPair env)\<rparr>,
             initializationStatus := ''AES key initialization completed'',
             initializationCompleted := True,
             remoteCalls := remoteCalls s @
               [\<lparr>remoteCall = FetchKeys (publicKeyBytes (newTransportKeyPair env)),
                 keyAtCall = None\<rparr>]\<rparr>))"
  using assms
  by (simp add: initAesKey_try_def clearAesRawKey_def getTransportPublicKey_def
      backend_asymmetric_keys_def decryptExistingAesKey_def log_call_def Let_def
      split: sum.split)

lemma initAesKey_try_generate:
  assumes "currentIdentity env = Some ident"
    and "asymmetric_keys env ident (publicKeyBytes (newTransportKeyPair env)) = Inr reply"
    and "encrypted_aes_key reply = None \<or> encrypted_key reply = None"
  shows "initAesKey_try env s =
     (let payload = wrapKey env (newAesKey env) (public_key reply) (getPrincipal ident);
          s' = s\<lparr>error := None, isLoading := True, initializationAttempted := True,
                 auth := (auth s)\<lparr>aesRawKey := Some (newAesKey env),
                                   transportKeyPair := Some (newTransportKeyPair env)\<rparr>,
                 remoteCalls := remoteCalls s @
                   [\<lparr>remoteCall = FetchKeys (publicKeyBytes (newTransportKeyPair env)),
                     keyAtCall = None\<rparr>,
                    \<lparr>remoteCall = SaveEncryptedKey payload,
                     keyAtCall = Some (newAesKey env)\<rparr>]\<rparr>
      in case asymmetric_save_encrypted_aes_key env ident payload of
           Inl err \<Rightarrow>
             (Some err, s'\<lparr>initializationStatus := ''Saving encrypted AES key...''\<rparr>)
         | Inr _ \<Rightarrow>
             (None,
              s'\<lparr>initializationStatus := ''AES key initialization completed'',
                 initializationCompleted := True\<rparr>))"
  using assms
  by (auto simp add: initAesKey_try_def clearAesRawKey_def getTransportPublicKey_def
      backend_asymmetric_keys_def backend_asymmetric_save_encrypted_aes_key_def
      generateAndEncryptAesKey_def generateAesKey_def log_call_def Let_def
      split: sum.split option.split)

lemma initAesKey_try_first_call:
  assumes "currentIdentity env = Some ident"
  shows "\<exists>rest. remoteCalls (snd (initAesKey_try env s)) =
           remoteCalls s @
             \<lparr>remoteCall = FetchKeys (publicKeyBytes (newTransportKeyPair env)),
              keyAtCall = None\<rparr> # rest"
proof (cases "asymmetric_keys env ident (publicKeyBytes (newTransportKeyPair env))")
  case (Inl err)
  show ?thesis
    by (simp add: initAesKey_try_fetch_failed [OF assms Inl])
next
  case (Inr reply)
  show ?thesis
  proof (cases "encrypted_aes_key reply = None \<or> encrypted_key reply = None")
    case True
    show ?thesis
      by (simp add: initAesKey_try_generate [OF assms Inr True] Let_def split: sum.split)
  next
    case False
    then obtain eak ek where "encrypted_aes_key reply = Some eak" "encrypted_key reply = Some ek"
      by auto
    from initAesKey_try_decrypt [OF assms Inr this] show ?thesis
      by (simp split: sum.split)
  qed
qed

lemma initAesKey_remoteCalls:
  "\<not> capturedIsLoading env \<Longrightarrow>
     remoteCalls (initAesKey env s) = remoteCalls (snd (initAesKey_try env s))"
  by (simp add: initAesKey_def initAesKey_catch_def split: prod.split option.split)

lemma initAesKey_not_thrown:
  "\<not> capturedIsLoading env \<Longrightarrow> initAesKey_try env s = (None, s1) \<Longrightarrow>
     initAesKey env s = s1\<lparr>isLoading := False\<rparr>"
  by (simp add: initAesKey_def)

lemma initAesKey_thrown:
  "\<not> capturedIsLoading env \<Longrightarrow> initAesKey_try env s = (Some err, s1) \<Longrightarrow>
     initAesKey env s =
       s1\<lparr>initializationStatus := ''Failed to initialize AES key: '' @ js_String err,
          error := Some (as_Error err), isLoading := False\<rparr>"
  by (simp add: initAesKey_def initAesKey_catch_def)

subsection \<open>The claims about the bootstrap\<close>




text \<open>
  C7. An attempt with no identity ends \<open>Completed\<close> with a newly generated key in the
  key store, and makes no call to the remote keystore: the log of remote calls is
  unchanged.
\<close>

theorem no_identity_generates_local_key:
  assumes "\<not> capturedIsLoading env" and "currentIdentity env = None"
  shows "initAesKey env s =
           s\<lparr>error := None, isLoading := False, initializationAttempted := True,
             auth := (auth s)\<lparr>aesRawKey := Some (newAesKey env)\<rparr>,
             initializationStatus := ''AES key generated'',
             initializationCompleted := True\<rparr> \<and>
         bootstrapStatus (initAesKey env s) = Completed \<and>
         aesRawKey (auth (initAesKey env s)) = Some (newAesKey env) \<and>
         remoteCalls (initAesKey env s) = remoteCalls s"
proof -
  have e: "initAesKey env s =
           s\<lparr>error := None, isLoading := False, initializationAttempted := True,
             auth := (auth s)\<lparr>aesRawKey := Some (newAesKey env)\<rparr>,
             initializationStatus := ''AES key generated'',
             initializationCompleted := True\<rparr>"
    using initAesKey_not_thrown [OF assms(1) initAesKey_try_no_identity [OF assms(2)]]
    by simp
  show ?thesis unfolding e by (simp add: bootstrapStatus_def)
qed

theorem no_identity_generates_local_key_witness:
  "\<not> capturedIsLoading anonymous_env \<and> currentIdentity anonymous_env = None \<and>
   bootstrapStatus (initAesKey anonymous_env example_state) = Completed \<and>
   aesRawKey (auth (initAesKey anonymous_env example_state)) = Some [5, 5] \<and>
   remoteCalls (initAesKey anonymous_env example_state) = []"
proof -
  have l: "\<not> capturedIsLoading anonymous_env"
    by (simp add: anonymous_env_def example_bootstrap_env_def)
  have i: "currentIdentity anonymous_env = None"
    by (simp add: anonymous_env_def example_bootstrap_env_def)
  have n: "newAesKey anonymous_env = [5, 5]"
    by (simp add: anonymous_env_def example_bootstrap_env_def)
  have r: "remoteCalls example_state = []" by (simp add: example_state_def)
  note w = no_identity_generates_local_key [OF l i, where s = example_state, THEN conjunct2, unfolded n r]
  from w l i show ?thesis by simp
qed

text \<open>
  C5. In an attempt with an identity, \<^verbatim>\<open>asymmetric_keys\<close> is the first remote call, made
  with the attempt's new transport public key while the key store holds no symmetric
  key. If that call fails, the attempt ends \<open>Failed\<close> with the error of the call, the key
  store still holds no symmetric key, and no other remote call was made.
\<close>

theorem fetch_failure_keeps_key_cleared:
  assumes "\<not> capturedIsLoading env" and "currentIdentity env = Some ident"
  shows "(\<exists>rest. remoteCalls (initAesKey env s) =
            remoteCalls s @
              \<lparr>remoteCall = FetchKeys (publicKeyBytes (newTransportKeyPair env)),
               keyAtCall = None\<rparr> # rest) \<and>
         (\<forall>err. asymmetric_keys env ident (publicKeyBytes (newTransportKeyPair env)) = Inl err \<longrightarrow>
            bootstrapStatus (initAesKey env s) =
              Failed (as_Error err) (''Failed to initialize AES key: '' @ js_String err) \<and>
            aesRawKey (auth (initAesKey env s)) = None \<and>
            remoteCalls (initAesKey env s) =
              remoteCalls s @
                [\<lparr>remoteCall = FetchKeys (publicKeyBytes (newTransportKeyPair env)),
                  keyAtCall = None\<rparr>])"
proof -
  have first: "\<exists>rest. remoteCalls (initAesKey env s) =
            remoteCalls s @
              \<lparr>remoteCall = FetchKeys (publicKeyBytes (newTransportKeyPair env)),
               keyAtCall = None\<rparr> # rest"
    using initAesKey_try_first_call [OF assms(2), of s] initAesKey_remoteCalls [OF assms(1)]
    by simp
  have failed: "bootstrapStatus (initAesKey env s) =
              Failed (as_Error err) (''Failed to initialize AES key: '' @ js_String err) \<and>
            aesRawKey (auth (initAesKey env s)) = None \<and>
            remoteCalls (initAesKey env s) =
              remoteCalls s @
                [\<lparr>remoteCall = FetchKeys (publicKeyBytes (newTransportKeyPair env)),
                  keyAtCall = None\<rparr>]"
    if "asymmetric_keys env ident (publicKeyBytes (newTransportKeyPair env)) = Inl err" for err
    using initAesKey_thrown [OF assms(1) initAesKey_try_fetch_failed [OF assms(2) that]]
    by (simp add: bootstrapStatus_def)
  from first failed show ?thesis by blast
qed

theorem fetch_failure_keeps_key_cleared_witness:
  "\<not> capturedIsLoading failing_fetch_env \<and>
   currentIdentity failing_fetch_env = Some example_identity \<and>
   aesRawKey (auth example_state) = Some [9, 9] \<and>
   asymmetric_keys failing_fetch_env example_identity [4] =
     Inl (ErrorValue (JsError ''Error'' ''network unreachable'')) \<and>
   bootstrapStatus (initAesKey failing_fetch_env example_state) =
     Failed (JsError ''Error'' ''network unreachable'')
       ''Failed to initialize AES key: Error: network unreachable'' \<and>
   aesRawKey (auth (initAesKey failing_fetch_env example_state)) = None \<and>
   remoteCalls (initAesKey failing_fetch_env example_state) =
     [\<lparr>remoteCall = FetchKeys [4], keyAtCall = None\<rparr>]"
proof -
  have l: "\<not> capturedIsLoading failing_fetch_env"
    by (simp add: failing_fetch_env_def example_bootstrap_env_def)
  have i: "currentIdentity failing_fetch_env = Some example_identity"
    by (simp add: failing_fetch_env_def example_bootstrap_env_def)
  have k: "aesRawKey (auth example_state) = Some [9, 9]" by (simp add: example_state_def)
  have t: "publicKeyBytes (newTransportKeyPair failing_fetch_env) = [4]"
    by (simp add: failing_fetch_env_def example_bootstrap_env_def)
  have f: "asymmetric_keys failing_fetch_env example_identity [4] =
     Inl (ErrorValue (JsError ''Error'' ''network unreachable''))"
    by (simp add: failing_fetch_env_def example_bootstrap_env_def new_Error_def)
  have r: "remoteCalls example_state = []" by (simp add: example_state_def)
  from fetch_failure_keeps_key_cleared [OF l i, where s = example_state, unfolded t] f l i k r show ?thesis
    by (simp add: error_toString_def)
qed

text \<open>
  C6, as the program has it. In an attempt with an identity whose \<^verbatim>\<open>asymmetric_keys\<close>
  reply carries both \<^verbatim>\<open>encrypted_aes_key\<close> and \<^verbatim>\<open>encrypted_key\<close>, \<open>fetchKeys\<close> is called
  exactly once and \<open>saveEncryptedKey\<close> is not called. When the transport key pair unwraps
  the two fields to a key, that key is stored as the symmetric key and the attempt ends
  \<open>Completed\<close>; when it does not, the attempt ends \<open>Failed\<close> with the error of the
  decryption and the key store holds no symmetric key.
\<close>

theorem existing_key_decrypted:
  assumes "\<not> capturedIsLoading env" and "currentIdentity env = Some ident"
    and "asymmetric_keys env ident (publicKeyBytes (newTransportKeyPair env)) = Inr reply"
    and "encrypted_aes_key reply = Some eak" and "encrypted_key reply = Some ek"
  shows "remoteCalls (initAesKey env s) =
           remoteCalls s @
             [\<lparr>remoteCall = FetchKeys (publicKeyBytes (newTransportKeyPair env)),
               keyAtCall = None\<rparr>] \<and>
         fetchKeys_count (remoteCalls (initAesKey env s)) =
           fetchKeys_count (remoteCalls s) + 1 \<and>
         saveEncryptedKey_count (remoteCalls (initAesKey env s)) =
           saveEncryptedKey_count (remoteCalls s) \<and>
         (case unwrapKey env (Some (newTransportKeyPair env)) eak ek (public_key reply)
                 (getPrincipal ident) of
            Inr k \<Rightarrow>
              aesRawKey (auth (initAesKey env s)) = Some k \<and>
              bootstrapStatus (initAesKey env s) = Completed \<and>
              initializationStatus (initAesKey env s) = ''AES key initialization completed''
          | Inl err \<Rightarrow>
              aesRawKey (auth (initAesKey env s)) = None \<and>
              bootstrapStatus (initAesKey env s) =
                Failed (as_Error err) (''Failed to initialize AES key: '' @ js_String err))"
proof (cases "unwrapKey env (Some (newTransportKeyPair env)) eak ek (public_key reply)
                 (getPrincipal ident)")
  case (Inl err)
  note t = initAesKey_try_decrypt [OF assms(2-5), of s, unfolded Inl, simplified]
  show ?thesis
    unfolding initAesKey_thrown [OF assms(1) t]
    by (simp add: Inl bootstrapStatus_def fetchKeys_count_def saveEncryptedKey_count_def)
next
  case (Inr k)
  note t = initAesKey_try_decrypt [OF assms(2-5), of s, unfolded Inr, simplified]
  show ?thesis
    unfolding initAesKey_not_thrown [OF assms(1) t]
    by (simp add: Inr bootstrapStatus_def fetchKeys_count_def saveEncryptedKey_count_def)
qed

theorem existing_key_decrypted_witness:
  "asymmetric_keys example_bootstrap_env example_identity [4] =
     Inr \<lparr>public_key = [7], encrypted_aes_key = Some [1], encrypted_key = Some [2]\<rparr> \<and>
   unwrapKey example_bootstrap_env (Some (newTransportKeyPair example_bootstrap_env))
     [1] [2] [7] (getPrincipal example_identity) = Inr [8, 8] \<and>
   remoteCalls (initAesKey example_bootstrap_env example_state) =
     [\<lparr>remoteCall = FetchKeys [4], keyAtCall = None\<rparr>] \<and>
   aesRawKey (auth (initAesKey example_bootstrap_env example_state)) = Some [8, 8] \<and>
   bootstrapStatus (initAesKey example_bootstrap_env example_state) = Completed"
proof -
  have l: "\<not> capturedIsLoading example_bootstrap_env"
    by (simp add: example_bootstrap_env_def)
  have i: "currentIdentity example_bootstrap_env = Some example_identity"
    by (simp add: example_bootstrap_env_def)
  have f: "asymmetric_keys example_bootstrap_env example_identity
             (publicKeyBytes (newTransportKeyPair example_bootstrap_env)) =
     Inr \<lparr>public_key = [7], encrypted_aes_key = Some [1], encrypted_key = Some [2]\<rparr>"
    by (simp add: example_bootstrap_env_def)
  have p: "public_key \<lparr>public_key = [7], encrypted_aes_key = Some [1],
                        encrypted_key = Some [2]\<rparr> = [7::8 word]"
    by simp
  have u: "unwrapKey example_bootstrap_env (Some (newTransportKeyPair example_bootstrap_env))
             [1] [2] [7] (getPrincipal example_identity) = Inr [8, 8]"
    by (simp add: example_bootstrap_env_def)
  have t: "publicKeyBytes (newTransportKeyPair example_bootstrap_env) = [4]"
    by (simp add: example_bootstrap_env_def)
  have r: "remoteCalls example_state = []" by (simp add: example_state_def)
  note w = existing_key_decrypted [OF l i f, where eak = "[1]" and ek = "[2]" and s = example_state, unfolded p u t r]
  from w f [unfolded t] u show ?thesis by simp
qed

text \<open>
  C6, as the claim states it, fails: the reply carries both fields, the transport key does
  not unwrap them, and the attempt ends \<open>Failed\<close> with no key stored.
\<close>

theorem undecryptable_reply_fails:
  "asymmetric_keys tampered_reply_env example_identity [4] =
     Inr \<lparr>public_key = [7], encrypted_aes_key = Some [1], encrypted_key = Some [2]\<rparr> \<and>
   bootstrapStatus (initAesKey tampered_reply_env example_state) =
     Failed (JsError ''Error'' ''decryption failed'')
       ''Failed to initialize AES key: Error: decryption failed'' \<and>
   aesRawKey (auth (initAesKey tampered_reply_env example_state)) = None \<and>
   initializationCompleted (initAesKey tampered_reply_env example_state) = False"
  by (simp add: tampered_reply_env_def example_bootstrap_env_def example_state_def
      example_identity_def initAesKey_def initAesKey_try_def initAesKey_catch_def
      clearAesRawKey_def getTransportPublicKey_def backend_asymmetric_keys_def
      decryptExistingAesKey_def log_call_def bootstrapStatus_def new_Error_def
      error_toString_def Let_def)

text \<open>
  C1, as the program has it. A reply that carries exactly one of \<^verbatim>\<open>encrypted_aes_key\<close>
  and \<^verbatim>\<open>encrypted_key\<close> is handled exactly as a reply that carries neither: no
  \<open>MalformedResponse\<close> is raised, nothing is decrypted, a new key is generated, stored and
  encrypted, and \<open>saveEncryptedKey\<close> is called with it. The attempt ends \<open>Completed\<close> when
  that call succeeds, and \<open>Failed\<close> with the error of that call otherwise.
\<close>

theorem partial_reply_generates_new_key:
  assumes "\<not> capturedIsLoading env" and "currentIdentity env = Some ident"
    and "asymmetric_keys env ident (publicKeyBytes (newTransportKeyPair env)) = Inr reply"
    and "(encrypted_aes_key reply = None) \<noteq> (encrypted_key reply = None)"
  shows "initAesKey env s =
           initAesKey
             (env\<lparr>asymmetric_keys :=
                    (asymmetric_keys env)
                      (ident := (asymmetric_keys env ident)
                         (publicKeyBytes (newTransportKeyPair env) :=
                            Inr (reply\<lparr>encrypted_aes_key := None, encrypted_key := None\<rparr>)))\<rparr>) s \<and>
         aesRawKey (auth (initAesKey env s)) = Some (newAesKey env) \<and>
         remoteCalls (initAesKey env s) =
           remoteCalls s @
             [\<lparr>remoteCall = FetchKeys (publicKeyBytes (newTransportKeyPair env)),
               keyAtCall = None\<rparr>,
              \<lparr>remoteCall =
                 SaveEncryptedKey
                   (wrapKey env (newAesKey env) (public_key reply) (getPrincipal ident)),
               keyAtCall = Some (newAesKey env)\<rparr>] \<and>
         (case asymmetric_save_encrypted_aes_key env ident
                 (wrapKey env (newAesKey env) (public_key reply) (getPrincipal ident)) of
            Inr u \<Rightarrow> bootstrapStatus (initAesKey env s) = Completed
          | Inl err \<Rightarrow>
              bootstrapStatus (initAesKey env s) =
                Failed (as_Error err) (''Failed to initialize AES key: '' @ js_String err))"
proof -
  let ?env' = "env\<lparr>asymmetric_keys :=
                    (asymmetric_keys env)
                      (ident := (asymmetric_keys env ident)
                         (publicKeyBytes (newTransportKeyPair env) :=
                            Inr (reply\<lparr>encrypted_aes_key := None, encrypted_key := None\<rparr>)))\<rparr>"
  let ?payload = "wrapKey env (newAesKey env) (public_key reply) (getPrincipal ident)"
  have one: "encrypted_aes_key reply = None \<or> encrypted_key reply = None"
    using assms(4) by auto
  note t = initAesKey_try_generate [OF assms(2,3) one, of s]
  have t': "initAesKey_try ?env' s = initAesKey_try env s"
    unfolding t
    by (subst initAesKey_try_generate [of ?env' ident
          "reply\<lparr>encrypted_aes_key := None, encrypted_key := None\<rparr>"])
       (simp_all add: assms(2))
  have same: "initAesKey ?env' s = initAesKey env s"
    by (simp add: initAesKey_def t')
  show ?thesis
  proof (cases "asymmetric_save_encrypted_aes_key env ident ?payload")
    case (Inl err)
    note r = initAesKey_thrown [OF assms(1) t [unfolded Let_def Inl, simplified]]
    show ?thesis unfolding same unfolding r by (simp add: Inl bootstrapStatus_def)
  next
    case (Inr u)
    note r = initAesKey_not_thrown [OF assms(1) t [unfolded Let_def Inr, simplified]]
    show ?thesis unfolding same unfolding r by (simp add: Inr bootstrapStatus_def)
  qed
qed

theorem partial_reply_generates_new_key_witness:
  "asymmetric_keys partial_reply_env example_identity [4] =
     Inr \<lparr>public_key = [7], encrypted_aes_key = Some [1], encrypted_key = None\<rparr> \<and>
   aesRawKey (auth (initAesKey partial_reply_env example_state)) = Some [5, 5] \<and>
   remoteCalls (initAesKey partial_reply_env example_state) =
     [\<lparr>remoteCall = FetchKeys [4], keyAtCall = None\<rparr>,
      \<lparr>remoteCall = SaveEncryptedKey [5, 5, 7], keyAtCall = Some [5, 5]\<rparr>]"
proof -
  have l: "\<not> capturedIsLoading partial_reply_env"
    by (simp add: partial_reply_env_def example_bootstrap_env_def)
  have i: "currentIdentity partial_reply_env = Some example_identity"
    by (simp add: partial_reply_env_def example_bootstrap_env_def)
  have t: "publicKeyBytes (newTransportKeyPair partial_reply_env) = [4]"
    by (simp add: partial_reply_env_def example_bootstrap_env_def)
  have f: "asymmetric_keys partial_reply_env example_identity
             (publicKeyBytes (newTransportKeyPair partial_reply_env)) =
     Inr \<lparr>public_key = [7], encrypted_aes_key = Some [1], encrypted_key = None\<rparr>"
    by (simp add: partial_reply_env_def example_bootstrap_env_def)
  have r: "remoteCalls example_state = []" by (simp add: example_state_def)
  have n: "newAesKey partial_reply_env = [5, 5]"
    by (simp add: partial_reply_env_def example_bootstrap_env_def)
  have w: "wrapKey partial_reply_env [5, 5] [7] (getPrincipal example_identity) = [5, 5, 7]"
    by (simp add: partial_reply_env_def example_bootstrap_env_def)
  have p: "public_key \<lparr>public_key = [7], encrypted_aes_key = Some [1],
                        encrypted_key = None\<rparr> = [7::8 word]"
    by simp
  note c = partial_reply_generates_new_key [OF l i f, where s = example_state, THEN conjunct2, unfolded t r p n w]
  from c f [unfolded t] show ?thesis by simp
qed

text \<open>
  C1, as the claim states it, fails: the keystore replies with \<^verbatim>\<open>encrypted_aes_key\<close> only,
  and the attempt ends \<open>Completed\<close> with no error, having saved a newly generated key.
\<close>

theorem partial_reply_completes:
  "asymmetric_keys partial_reply_env example_identity [4] =
     Inr \<lparr>public_key = [7], encrypted_aes_key = Some [1], encrypted_key = None\<rparr> \<and>
   bootstrapStatus (initAesKey partial_reply_env example_state) = Completed \<and>
   error (initAesKey partial_reply_env example_state) = None \<and>
   remoteCalls (initAesKey partial_reply_env example_state) =
     [\<lparr>remoteCall = FetchKeys [4], keyAtCall = None\<rparr>,
      \<lparr>remoteCall = SaveEncryptedKey [5, 5, 7], keyAtCall = Some [5, 5]\<rparr>]"
  by (simp add: partial_reply_env_def example_bootstrap_env_def example_state_def
      example_identity_def initAesKey_def initAesKey_try_def clearAesRawKey_def
      getTransportPublicKey_def backend_asymmetric_keys_def
      backend_asymmetric_save_encrypted_aes_key_def generateAndEncryptAesKey_def
      generateAesKey_def log_call_def bootstrapStatus_def Let_def)

end
